theory Spec2Isabelle
  imports
    Complex_Main
    "HOL-Library.Word"
    "HOL-Library.Char_ord"
    "HOL-Library.List_Lexorder"
begin

section \<open>Data model\<close>

text \<open>
  Go's \<^verbatim>\<open>uint64\<close> is a 64-bit word read unsigned (\<open>uint\<close>, and \<open>\<le>\<close> on words);
  \<^verbatim>\<open>int64\<close> is a 64-bit word read in two's complement (\<open>sint\<close>). The conversion
  \<^verbatim>\<open>int64(x)\<close> of a \<^verbatim>\<open>uint64\<close> keeps the bits, so a value from \<open>2^63\<close> on becomes
  negative.
\<close>

type_synonym uint64 = "64 word"
type_synonym int64 = "64 word"

definition int64_of_uint64 :: "uint64 \<Rightarrow> int64" where
  "int64_of_uint64 x = x"

text \<open>
  \<^verbatim>\<open>sdk.Dec\<close> is a fixed-point decimal with 18 fractional digits: a big integer holding
  the value times \<open>10^18\<close>. \<^verbatim>\<open>sdk.Int\<close> is a big integer, modelled as \<open>int\<close>. The SDK's
  bit-length limits on both types are outside the model.
\<close>

datatype Dec = Dec (i: int)

definition precisionReuse :: int where
  "precisionReuse = 10 ^ 18"

definition fivePrecision :: int where
  "fivePrecision = precisionReuse div 2"

text \<open>\<^verbatim>\<open>big.Int.QuoRem\<close>: division truncated towards zero, the remainder has the sign of the dividend.\<close>

definition Quo :: "int \<Rightarrow> int \<Rightarrow> int" where
  "Quo a b = sgn a * sgn b * (\<bar>a\<bar> div \<bar>b\<bar>)"

definition Rem :: "int \<Rightarrow> int \<Rightarrow> int" where
  "Rem a b = a - b * Quo a b"

definition NewDec :: "int64 \<Rightarrow> Dec" where
  "NewDec n = Dec (sint n * precisionReuse)"

text \<open>\<^verbatim>\<open>chopPrecisionAndRound\<close>: remove 18 digits with banker's rounding, on the absolute value.\<close>

definition chopPositive :: "int \<Rightarrow> int" where
  "chopPositive d =
     (let quo = Quo d precisionReuse; rem = Rem d precisionReuse
      in if rem = 0 then quo
         else if rem < fivePrecision then quo
         else if rem > fivePrecision then quo + 1
         else if even quo then quo else quo + 1)"

definition chopPrecisionAndRound :: "int \<Rightarrow> int" where
  "chopPrecisionAndRound d = (if d < 0 then - chopPositive (- d) else chopPositive d)"

definition Mul :: "Dec \<Rightarrow> Dec \<Rightarrow> Dec" where
  "Mul d d2 = Dec (chopPrecisionAndRound (i d * i d2))"

definition Ceil :: "Dec \<Rightarrow> Dec" where
  "Ceil d =
     (let quo = Quo (i d) precisionReuse; rem = Rem (i d) precisionReuse
      in if rem = 0 then Dec (quo * precisionReuse)
         else if rem < 0 then Dec (quo * precisionReuse)
         else Dec ((quo + 1) * precisionReuse))"

definition RoundInt :: "Dec \<Rightarrow> int" where
  "RoundInt d = chopPrecisionAndRound (i d)"

text \<open>
  \<^verbatim>\<open>sdk.Coin\<close> and \<^verbatim>\<open>sdk.DecCoin\<close> have the same two fields; the amount is an
  \<^verbatim>\<open>sdk.Int\<close> in the first and an \<^verbatim>\<open>sdk.Dec\<close> in the second. \<^verbatim>\<open>sdk.Coins\<close> and
  \<^verbatim>\<open>sdk.DecCoins\<close> are slices. Denomination strings come from validated parameters and
  validated transactions; the denomination syntax check of the SDK's constructors is
  outside the model, their sign check is in it.
\<close>

record 'a CoinOf =
  Denom :: string
  Amount :: 'a

type_synonym Coin = "int CoinOf"
type_synonym DecCoin = "Dec CoinOf"
type_synonym Coins = "Coin list"
type_synonym DecCoins = "DecCoin list"

datatype sdkerror = ErrTxDecode | ErrInvalidCoins | ErrInsufficientFee

text \<open>
  Errors as values. \<open>Wrapf\<close> keeps the registered error, the format string and the two coin
  sets that the source renders into the message (the declared fee first, the required fee
  second). A Go panic is a value too and propagates like an error.
\<close>

datatype error =
    Wrap sdkerror string
  | Wrapf sdkerror string Coins Coins
  | ErrorsNew string
  | Panic string

definition NewCoin :: "string \<Rightarrow> int \<Rightarrow> error + Coin" where
  "NewCoin denom amount =
     (if amount < 0 then Inl (Panic ''negative coin amount'')
      else Inr \<lparr>Denom = denom, Amount = amount\<rparr>)"

definition NewDecCoinFromDec :: "string \<Rightarrow> Dec \<Rightarrow> DecCoin" where
  "NewDecCoinFromDec denom amount = \<lparr>Denom = denom, Amount = amount\<rparr>"

text \<open>
  \<^verbatim>\<open>Coins.Sort\<close> orders the slice by denomination (Go compares strings bytewise). Go's sort
  is not stable; on coin sets, whose denominations are unique, the result is the same.
\<close>

definition Sort :: "'a CoinOf list \<Rightarrow> 'a CoinOf list" where
  "Sort coins = sort_key Denom coins"

text \<open>\<^verbatim>\<open>Coins.AmountOf\<close>: the amount recorded for a denomination, zero when it is absent.\<close>

fun AmountOf :: "Coins \<Rightarrow> string \<Rightarrow> int" where
  "AmountOf [] denom = 0"
| "AmountOf (coin # coins) denom =
     (if Denom coin = denom then Amount coin else AmountOf coins denom)"

definition DenomsSubsetOf :: "Coins \<Rightarrow> Coins \<Rightarrow> bool" where
  "DenomsSubsetOf coins coinsB =
     (if length coins > length coinsB then False
      else list_all (\<lambda>coin. AmountOf coinsB (Denom coin) \<noteq> 0) coins)"

definition IsAnyGTE :: "Coins \<Rightarrow> Coins \<Rightarrow> bool" where
  "IsAnyGTE coins coinsB =
     (if length coinsB = 0 then False
      else list_ex (\<lambda>coin. let amt = AmountOf coinsB (Denom coin)
                           in Amount coin \<ge> amt \<and> amt \<noteq> 0) coins)"

text \<open>\<^verbatim>\<open>DecCoins.IsZero\<close>: every coin has amount zero (true of the empty slice).\<close>

definition DecCoins_IsZero :: "DecCoins \<Rightarrow> bool" where
  "DecCoins_IsZero coins = list_all (\<lambda>coin. i (Amount coin) = 0) coins"

section \<open>The fee decorator\<close>

record FeeTx =
  GetFee :: Coins
  GetGas :: uint64
  GetMsgs :: "string list"

text \<open>A transaction either implements \<^verbatim>\<open>sdk.FeeTx\<close> or does not; messages are their type URLs.\<close>

datatype Tx = IsFeeTx FeeTx | NotFeeTx "string list"

text \<open>
  The context carries the execution mode, the node's minimum gas prices and the parameter
  store: the value under \<^verbatim>\<open>ParamStoreKeyMinGasPrices\<close> of the global fee subspace
  (\<open>None\<close> when the key is absent) and the value under \<^verbatim>\<open>KeyBondDenom\<close> of the staking
  subspace.
\<close>

record Context =
  IsCheckTx :: bool
  MinGasPrices :: DecCoins
  GlobalFeeMinGasPrices :: "DecCoins option"
  StakingBondDenom :: string

record Subspace =
  HasKeyTable :: bool

record FeeDecorator =
  BypassMinFeeMsgTypes :: "string list"
  StakingSubspace :: Subspace
  MaxTotalBypassMinFeeMsgGasUsage :: uint64

fun StringInSlice :: "string \<Rightarrow> string list \<Rightarrow> bool" where
  "StringInSlice a [] = False"
| "StringInSlice a (b # list) = (if b = a then True else StringInSlice a list)"

fun ContainsOnlyBypassMinFeeMsgs :: "FeeDecorator \<Rightarrow> string list \<Rightarrow> bool" where
  "ContainsOnlyBypassMinFeeMsgs mfd [] = True"
| "ContainsOnlyBypassMinFeeMsgs mfd (msg # msgs) =
     (if StringInSlice msg (BypassMinFeeMsgTypes mfd)
      then ContainsOnlyBypassMinFeeMsgs mfd msgs
      else False)"

definition getBondDenom :: "FeeDecorator \<Rightarrow> Context \<Rightarrow> string" where
  "getBondDenom mfd ctx =
     (if \<not> HasKeyTable (StakingSubspace mfd) then [] else StakingBondDenom ctx)"

definition DefaultZeroGlobalFee :: "FeeDecorator \<Rightarrow> Context \<Rightarrow> error + DecCoins" where
  "DefaultZeroGlobalFee mfd ctx =
     (let bondDenom = getBondDenom mfd ctx
      in if bondDenom = [] then Inl (ErrorsNew ''empty staking bond denomination'')
         else Inr [NewDecCoinFromDec bondDenom (NewDec 0)])"

text \<open>
  The loop shared by \<^verbatim>\<open>GetGlobalFee\<close> and \<^verbatim>\<open>GetMinGasPrice\<close>: each price is multiplied
  by the gas limit, rounded up and made a coin; a panic of \<^verbatim>\<open>sdk.NewCoin\<close> ends it.
\<close>

fun requiredFeesLoop :: "Dec \<Rightarrow> DecCoins \<Rightarrow> error + Coins" where
  "requiredFeesLoop glDec [] = Inr []"
| "requiredFeesLoop glDec (gp # gps) =
     (let fee = Mul (Amount gp) glDec
      in case NewCoin (Denom gp) (RoundInt (Ceil fee)) of
           Inl e \<Rightarrow> Inl e
         | Inr coin \<Rightarrow>
             (case requiredFeesLoop glDec gps of
                Inl e \<Rightarrow> Inl e
              | Inr coins \<Rightarrow> Inr (coin # coins)))"

definition GetGlobalFee :: "FeeDecorator \<Rightarrow> Context \<Rightarrow> FeeTx \<Rightarrow> error + Coins" where
  "GetGlobalFee mfd ctx feeTx =
     (let globalMinGasPrices =
            (case GlobalFeeMinGasPrices ctx of None \<Rightarrow> [] | Some prices \<Rightarrow> prices);
          defaulted =
            (if length globalMinGasPrices = 0 then DefaultZeroGlobalFee mfd ctx
             else Inr globalMinGasPrices)
      in case defaulted of
           Inl err \<Rightarrow> Inl err
         | Inr prices \<Rightarrow>
             (let glDec = NewDec (int64_of_uint64 (GetGas feeTx))
              in case requiredFeesLoop glDec prices of
                   Inl e \<Rightarrow> Inl e
                 | Inr requiredGlobalFees \<Rightarrow> Inr (Sort requiredGlobalFees)))"

definition GetMinGasPrice :: "Context \<Rightarrow> int64 \<Rightarrow> error + Coins" where
  "GetMinGasPrice ctx gasLimit =
     (let minGasPrices = MinGasPrices ctx
      in if DecCoins_IsZero minGasPrices then Inr []
         else (let glDec = NewDec gasLimit
               in case requiredFeesLoop glDec minGasPrices of
                    Inl e \<Rightarrow> Inl e
                  | Inr requiredFees \<Rightarrow> Inr (Sort requiredFees)))"

text \<open>
  \<^verbatim>\<open>CombinedFeeRequirement\<close> is not among the sources at hand; it is the parameter
  \<open>combined\<close> of the functions that call it.
\<close>

type_synonym combiner = "Coins \<Rightarrow> Coins \<Rightarrow> error + Coins"

definition GetTxFeeRequired ::
  "combiner \<Rightarrow> FeeDecorator \<Rightarrow> Context \<Rightarrow> FeeTx \<Rightarrow> error + Coins" where
  "GetTxFeeRequired combined mfd ctx tx =
     (case GetGlobalFee mfd ctx tx of
        Inl err \<Rightarrow> Inl err
      | Inr globalFees \<Rightarrow>
          if \<not> IsCheckTx ctx then Inr globalFees
          else (case GetMinGasPrice ctx (int64_of_uint64 (GetGas tx)) of
                  Inl e \<Rightarrow> Inl e
                | Inr localFees \<Rightarrow> combined globalFees localFees))"

text \<open>
  Modelled from the spec: \<^verbatim>\<open>getNonZeroFees\<close>, missing from the sources at hand. The spec
  partitions the fee requirement "into a non-zero-rate subset and a
  zero-rate-denomination subset"; the second component holds the denominations of the
  zero coins.
\<close>

definition getNonZeroFees :: "Coins \<Rightarrow> Coins \<times> string list" where
  "getNonZeroFees fees =
     (filter (\<lambda>gf. Amount gf \<noteq> 0) fees, map Denom (filter (\<lambda>gf. Amount gf = 0) fees))"

text \<open>
  Modelled from the spec: \<^verbatim>\<open>splitCoinsByDenoms\<close>, missing from the sources at hand. The
  spec partitions "the declared fee by whether its denominations appear in the zero-rate
  subset"; the first component holds the coins whose denomination does not appear there.
\<close>

definition splitCoinsByDenoms :: "Coins \<Rightarrow> string list \<Rightarrow> Coins \<times> Coins" where
  "splitCoinsByDenoms feeCoins denomMap =
     (filter (\<lambda>fc. \<not> StringInSlice (Denom fc) denomMap) feeCoins,
      filter (\<lambda>fc. StringInSlice (Denom fc) denomMap) feeCoins)"

type_synonym AnteHandler = "Context \<Rightarrow> Tx \<Rightarrow> bool \<Rightarrow> error + Context"

definition notSubsetMsg :: string where
  "notSubsetMsg = ''fee is not a subset of required fees; got %s, required: %s''"

definition insufficientMsg :: string where
  "insufficientMsg = ''insufficient fees; got: %s required: %s''"

definition AnteHandle ::
  "combiner \<Rightarrow> FeeDecorator \<Rightarrow> Context \<Rightarrow> Tx \<Rightarrow> bool \<Rightarrow> AnteHandler \<Rightarrow> error + Context" where
  "AnteHandle combined mfd ctx tx simulate next =
     (case tx of
        NotFeeTx _ \<Rightarrow> Inl (Wrap ErrTxDecode ''Tx must implement the sdk.FeeTx interface'')
      | IsFeeTx feeTx \<Rightarrow>
          if simulate then next ctx tx simulate
          else (case GetTxFeeRequired combined mfd ctx feeTx of
            Inl err \<Rightarrow> Inl err
          | Inr feeRequired \<Rightarrow>
              if length (GetFee feeTx) > length feeRequired
              then Inl (Wrapf ErrInvalidCoins notSubsetMsg (GetFee feeTx) feeRequired)
              else
                (let feeCoins = Sort (GetFee feeTx);
                     gas = GetGas feeTx;
                     msgs = GetMsgs feeTx;
                     (nonZeroCoinFeesReq, zeroCoinFeesDenomReq) = getNonZeroFees feeRequired;
                     (feeCoinsNonZeroDenom, feeCoinsZeroDenom) =
                        splitCoinsByDenoms feeCoins zeroCoinFeesDenomReq
                 in if \<not> DenomsSubsetOf feeCoinsNonZeroDenom nonZeroCoinFeesReq
                    then Inl (Wrapf ErrInsufficientFee notSubsetMsg feeCoins feeRequired)
                    else
                      (let doesNotExceedMaxGasUsage =
                             (gas \<le> MaxTotalBypassMinFeeMsgGasUsage mfd);
                           allowedToBypassMinFee =
                             (ContainsOnlyBypassMinFeeMsgs mfd msgs \<and> doesNotExceedMaxGasUsage)
                       in if allowedToBypassMinFee then next ctx tx simulate
                          else if length feeCoins = 0
                          then (if length zeroCoinFeesDenomReq \<noteq> 0 then next ctx tx simulate
                                else Inl (Wrapf ErrInsufficientFee insufficientMsg
                                            feeCoins feeRequired))
                          else if length feeCoinsZeroDenom > 0 then next ctx tx simulate
                          else if \<not> IsAnyGTE feeCoinsNonZeroDenom nonZeroCoinFeesReq
                          then Inl (Wrapf ErrInsufficientFee insufficientMsg
                                      feeCoins feeRequired)
                          else next ctx tx simulate))))"

section \<open>Properties of the fee decorator\<close>

text \<open>
  Claim C10. A transaction that does not implement the fee-transaction interface is
  rejected with the transaction-decode error, whatever the simulate flag, the context, the
  decorator and the next handler are: the interface check comes before the simulation
  shortcut.
\<close>

theorem AnteHandle_non_fee_tx_rejected:
  "AnteHandle combined mfd ctx (NotFeeTx msgs) simulate next =
     Inl (Wrap ErrTxDecode ''Tx must implement the sdk.FeeTx interface'')"
  by (simp add: AnteHandle_def)

end
